theory Spec2Isabelle
  imports Complex_Main "HOL-Library.AList" "HOL-Library.Multiset"
    "HOL-Library.Char_ord" "HOL-Library.List_Lexorder"
begin

section \<open>Data model (src/types.ts)\<close>

text \<open>
  A JavaScript \<^verbatim>\<open>number\<close> is modelled as a real number: arithmetic is exact, and the
  special values NaN and Infinity are not represented. The comparisons and constants the
  theorems below depend on (\<^verbatim>\<open>1000000\<close>, \<^verbatim>\<open>1000000 * 0.8\<close>, \<^verbatim>\<open>11.25\<close>, \<^verbatim>\<open>4.5\<close>) are
  exact in both readings. A JavaScript string is modelled as a \<^typ>\<open>string\<close> of ASCII
  characters.
\<close>

datatype InvestmentTitle = CDB | LCI | LTN | NTNB

datatype InvestmentType = CDI | IPCA | PREFIXADO

record Investment =
  id_inv :: string
  broker :: string
  bank :: string
  title :: InvestmentTitle
  type_inv :: InvestmentType
  amount :: real
  quantity :: real
  interestRate :: real
  incomeTax :: real
  startDate :: string
  dueDate :: string
  futureValue :: real
  netFutureValue :: real
  createdAt :: real

record MarketRates =
  cdi :: real
  ipca :: real

section \<open>Language built-ins used by the aggregation\<close>

text \<open>\<^verbatim>\<open>x || 0\<close> on a number: the falsy number \<^verbatim>\<open>0\<close> is replaced by \<^verbatim>\<open>0\<close>.\<close>

definition or_zero :: "real \<Rightarrow> real" where
  "or_zero x = (if x = 0 then 0 else x)"

text \<open>\<^verbatim>\<open>obj[key] || 0\<close>: a missing property reads as \<^verbatim>\<open>undefined\<close>, which is falsy.\<close>

definition prop_or_zero :: "real option \<Rightarrow> real" where
  "prop_or_zero p = (case p of None \<Rightarrow> 0 | Some v \<Rightarrow> or_zero v)"

text \<open>
  \<^verbatim>\<open>String.prototype.trim\<close> on ASCII text: tab, line feed, vertical tab, form feed,
  carriage return and space are removed from both ends.
\<close>

definition is_white_space :: "char \<Rightarrow> bool" where
  "is_white_space c = ((of_char c :: nat) \<in> {9, 10, 11, 12, 13, 32})"

definition trim :: "string \<Rightarrow> string" where
  "trim s = rev (dropWhile is_white_space (rev (dropWhile is_white_space s)))"

text \<open>\<^verbatim>\<open>String.prototype.toUpperCase\<close> on ASCII text: \<^verbatim>\<open>a\<close>..\<^verbatim>\<open>z\<close> become \<^verbatim>\<open>A\<close>..\<^verbatim>\<open>Z\<close>.\<close>

definition upper_char :: "char \<Rightarrow> char" where
  "upper_char c =
     (let n = (of_char c :: nat) in if 97 \<le> n \<and> n \<le> 122 then char_of (n - 32) else c)"

definition toUpperCase :: "string \<Rightarrow> string" where
  "toUpperCase s = map upper_char s"

text \<open>
  \<^verbatim>\<open>Object.entries\<close> of a plain object whose properties were created by assignment:
  the keys that are array indices (canonical decimal numerals below \<open>2^32 - 1\<close>) come
  first, in ascending numeric order, then every other key in the order of its creation.
  The object is an association list with distinct keys, kept in creation order.
\<close>

definition is_digit :: "char \<Rightarrow> bool" where
  "is_digit c = (48 \<le> (of_char c :: nat) \<and> (of_char c :: nat) \<le> 57)"

definition digits_value :: "string \<Rightarrow> nat" where
  "digits_value s = foldl (\<lambda>acc c. 10 * acc + ((of_char c :: nat) - 48)) 0 s"

definition is_array_index :: "string \<Rightarrow> bool" where
  "is_array_index s =
     (case s of
        [] \<Rightarrow> False
      | c # cs \<Rightarrow> list_all is_digit s \<and> (if c = CHR ''0'' then cs = [] else True)
                 \<and> digits_value s < 2 ^ 32 - 1)"

definition Object_entries :: "(string \<times> real) list \<Rightarrow> (string \<times> real) list" where
  "Object_entries obj =
     sort_key (\<lambda>e. digits_value (fst e)) (filter (\<lambda>e. is_array_index (fst e)) obj)
     @ filter (\<lambda>e. \<not> is_array_index (fst e)) obj"

section \<open>Exposure aggregation (src/App.tsx)\<close>

text \<open>
  \<^verbatim>\<open>
  const fgcExposure = useMemo(() => {
    const banks: Record<string, number> = {};
    investments.forEach(inv => {
      const bankName = inv.bank.trim().toUpperCase();
      banks[bankName] = (banks[bankName] || 0) + (inv.futureValue || 0);
    });
    return Object.entries(banks).sort((a, b) => b[1] - a[1]);
  }, [investments]);
  \<close>
  The body of the \<^verbatim>\<open>forEach\<close> is \<open>add_bank\<close>; assigning to a property keeps the place
  of an existing key and appends a new one, which is \<^const>\<open>AList.update\<close>.
  A normalized name holds no lower-case letter, so it never meets a property that the
  empty object inherits (\<^verbatim>\<open>constructor\<close>, \<^verbatim>\<open>toString\<close>, ...): \<^verbatim>\<open>banks[bankName]\<close> is
  a number stored before or \<^verbatim>\<open>undefined\<close>.
  \<^verbatim>\<open>Array.prototype.sort\<close> is stable, and the comparator \<^verbatim>\<open>b[1] - a[1]\<close> puts \<open>a\<close>
  before \<open>b\<close> when \<open>a\<close>'s total is the larger one: a stable sort on the negated total.
\<close>

definition normalized :: "string \<Rightarrow> string" where
  "normalized s = toUpperCase (trim s)"

definition add_bank :: "(string \<times> real) list \<Rightarrow> Investment \<Rightarrow> (string \<times> real) list" where
  "add_bank banks iv =
     (let bankName = normalized (bank iv)
      in AList.update bankName
           (prop_or_zero (map_of banks bankName) + or_zero (futureValue iv)) banks)"

definition fgc_banks :: "Investment list \<Rightarrow> (string \<times> real) list" where
  "fgc_banks investments = foldl add_bank [] investments"

definition fgcExposure :: "Investment list \<Rightarrow> (string \<times> real) list" where
  "fgcExposure investments =
     sort_key (\<lambda>e. - snd e) (Object_entries (fgc_banks investments))"

text \<open>
  \<^verbatim>\<open>
  const totalFGC = investments.reduce((acc, curr) => acc + (curr.futureValue || 0), 0);
  const FGC_GLOBAL_LIMIT = 1000000;
  const isGlobalOver = totalFGC > FGC_GLOBAL_LIMIT;
  const isGlobalWarning = totalFGC > FGC_GLOBAL_LIMIT * 0.8 && !isGlobalOver;
  if (isGlobalOver) { ...red... } else if (isGlobalWarning) { ...amber... }   // else green
  \<close>
  The three branches of the last statement are the three risk levels.
\<close>

definition totalFGC :: "Investment list \<Rightarrow> real" where
  "totalFGC investments = foldl (\<lambda>acc curr. acc + or_zero (futureValue curr)) 0 investments"

definition FGC_GLOBAL_LIMIT :: real where
  "FGC_GLOBAL_LIMIT = 1000000"

definition isGlobalOver :: "real \<Rightarrow> bool" where
  "isGlobalOver tot = (tot > FGC_GLOBAL_LIMIT)"

definition isGlobalWarning :: "real \<Rightarrow> bool" where
  "isGlobalWarning tot = (tot > FGC_GLOBAL_LIMIT * 0.8 \<and> \<not> isGlobalOver tot)"

datatype RiskLevel = Safe | Warning | Over

definition riskLevel :: "real \<Rightarrow> RiskLevel" where
  "riskLevel tot =
     (if isGlobalOver tot then Over else if isGlobalWarning tot then Warning else Safe)"

text \<open>A position with the given institution, gross and net projected value, for examples.\<close>

definition position :: "string \<Rightarrow> real \<Rightarrow> real \<Rightarrow> Investment" where
  "position b fv nfv =
     \<lparr> id_inv = ''id'', broker = ''XP'', bank = b, title = CDB, type_inv = CDI,
       amount = 1000, quantity = 1, interestRate = 100, incomeTax = 15,
       startDate = ''2024-01-01'', dueDate = ''2025-01-01'',
       futureValue = fv, netFutureValue = nfv, createdAt = 0 \<rparr>"

text \<open>
  The per-institution sum the aggregation is compared with: the gross projected values of
  the positions whose normalized institution name is \<open>k\<close>.
\<close>

definition gross_at :: "string \<Rightarrow> Investment list \<Rightarrow> real" where
  "gross_at k investments =
     sum_list (map futureValue (filter (\<lambda>iv. normalized (bank iv) = k) investments))"




text \<open>
  The order the specification asks of the report: descending by total, and ascending by
  institution name (code-unit order, as JavaScript compares strings) among equal totals.
\<close>

definition ordered_by_total_then_name :: "(string \<times> real) list \<Rightarrow> bool" where
  "ordered_by_total_then_name es =
     sorted_wrt (\<lambda>a b. snd a > snd b \<or> (snd a = snd b \<and> fst a \<le> fst b)) es"

section \<open>Bulk recompute on a market-rate change (src/App.tsx)\<close>

text \<open>
  \<^verbatim>\<open>
  const updatedInvestments = investments.map(inv => {
    const { gross, net } = calculateFutureValue(inv, newRates);
    return { ...inv, futureValue: gross, netFutureValue: net };
  });
  \<close>
  \<^verbatim>\<open>calculateFutureValue\<close> is imported from \<^verbatim>\<open>utils/calculations\<close>, whose source is
  not available; it is a parameter here. It may throw, and an exception thrown for one
  position leaves the \<^verbatim>\<open>map\<close> (and the handler) at once: the first error is the result.
\<close>

record CalculationResult =
  gross :: real
  net :: real

fun updatedInvestments ::
  "(Investment \<Rightarrow> MarketRates \<Rightarrow> 'e + CalculationResult) \<Rightarrow> MarketRates
     \<Rightarrow> Investment list \<Rightarrow> 'e + Investment list" where
  "updatedInvestments calc newRates [] = Inr []"
| "updatedInvestments calc newRates (iv # rest) =
     (case calc iv newRates of
        Inl e \<Rightarrow> Inl e
      | Inr res \<Rightarrow>
          (case updatedInvestments calc newRates rest of
             Inl e \<Rightarrow> Inl e
           | Inr rest' \<Rightarrow>
               Inr (iv\<lparr>futureValue := gross res, netFutureValue := net res\<rparr> # rest')))"

text \<open>What one position becomes, as the claim says it: a copy with two fields replaced.\<close>

definition recomputed ::
  "(Investment \<Rightarrow> MarketRates \<Rightarrow> 'e + CalculationResult) \<Rightarrow> MarketRates
     \<Rightarrow> Investment \<Rightarrow> Investment \<Rightarrow> bool" where
  "recomputed calc newRates iv u =
     (case calc iv newRates of
        Inl e \<Rightarrow> False
      | Inr res \<Rightarrow> u = iv\<lparr>futureValue := gross res, netFutureValue := net res\<rparr>)"

text \<open>A calculation for examples: ten and five percent on the amount.\<close>

definition sample_calc :: "Investment \<Rightarrow> MarketRates \<Rightarrow> unit + CalculationResult" where
  "sample_calc iv rates = Inr \<lparr> gross = amount iv * 11 / 10, net = amount iv * 21 / 20 \<rparr>"

section \<open>Reading the market rates (src/services/investmentService.ts)\<close>

text \<open>
  \<^verbatim>\<open>
  const { data, error } = await supabase.from('market_rates').select('*').limit(1).single();
  if (error || !data) {
    return { cdi: 11.25, ipca: 4.5 };
  }
  return { cdi: Number(data.cdi), ipca: Number(data.ipca) };
  \<close>
  The store's answer is a pair of an optional row and an optional error. The columns of
  a row hold values of some type \<open>'v\<close>, and the built-in coercion \<^verbatim>\<open>Number\<close> is a
  parameter.
\<close>

record 'v market_rates_row =
  row_cdi :: 'v
  row_ipca :: 'v

record ('v, 'e) store_response =
  data :: "'v market_rates_row option"
  error :: "'e option"

definition default_rates :: MarketRates where
  "default_rates = \<lparr> cdi = 11.25, ipca = 4.5 \<rparr>"

definition fetchMarketRates :: "('v \<Rightarrow> real) \<Rightarrow> ('v, 'e) store_response \<Rightarrow> MarketRates" where
  "fetchMarketRates Number response =
     (case (error response, data response) of
        (Some e, _) \<Rightarrow> default_rates
      | (None, None) \<Rightarrow> default_rates
      | (None, Some row) \<Rightarrow> \<lparr> cdi = Number (row_cdi row), ipca = Number (row_ipca row) \<rparr>)"

section \<open>Projection of one position\<close>

text \<open>
  The projection is \<^verbatim>\<open>calculateFutureValue\<close> of \<^verbatim>\<open>utils/calculations\<close> in the
  application; its source is not available, and the definitions of this section follow
  sections 3, 4.1, 4.2 and 7 of the specification.
\<close>

text \<open>
  Modelled from the spec: the data model of the missing projection (section 3). A
  position has a principal, one of three index regimes, a rate parameter, a tax rate, a
  start date, a due date and an institution; the market rates are the annual rates of the
  reference index and of inflation. A calendar date is the number of its day, so that
  the difference of two dates is the number of calendar days between them.
\<close>

datatype IndexRegime = PostFixedToReferenceIndex | InflationLinked | FixedNominal

record Position =
  principal :: real
  indexRegime :: IndexRegime
  rateParameter :: real
  taxRate :: real
  startDay :: int
  dueDay :: int
  institution :: string

record RateSnapshot =
  referenceIndexAnnualRate :: real
  inflationAnnualRate :: real

text \<open>
  Modelled from the spec: the error taxonomy of the missing projection (section 7).
\<close>

datatype ProjectionError = InvalidRegime | InvalidPeriod | InvalidPrincipal

text \<open>
  Modelled from the spec: the missing rate resolution (section 4.1). Post-fixed:
  \<^verbatim>\<open>(referenceIndexAnnualRate/100) * (rateParameter/100)\<close>; inflation-linked:
  \<^verbatim>\<open>(1 + inflationAnnualRate/100) * (1 + rateParameter/100) - 1\<close>; fixed nominal:
  \<^verbatim>\<open>rateParameter/100\<close>. The regime is one of the three variants by its type, so
  \<open>InvalidRegime\<close> is never returned.
\<close>

definition effectiveAnnualRate :: "Position \<Rightarrow> RateSnapshot \<Rightarrow> real" where
  "effectiveAnnualRate p rates =
     (case indexRegime p of
        PostFixedToReferenceIndex \<Rightarrow>
          (referenceIndexAnnualRate rates / 100) * (rateParameter p / 100)
      | InflationLinked \<Rightarrow>
          (1 + inflationAnnualRate rates / 100) * (1 + rateParameter p / 100) - 1
      | FixedNominal \<Rightarrow> rateParameter p / 100)"

text \<open>
  Modelled from the spec: step 1 of the missing compounding calculation (section 4.2),
  \<^verbatim>\<open>periodYears = (dueDate - startDate in calendar days) / 365.0\<close>.
\<close>

definition periodYears :: "Position \<Rightarrow> real" where
  "periodYears p = real_of_int (dueDay p - startDay p) / 365"

text \<open>
  Modelled from the spec: step 2 of the missing compounding calculation,
  \<^verbatim>\<open>gross = principal * (1 + effectiveAnnualRate) ^ periodYears\<close> with real-valued
  exponentiation, which is \<open>powr\<close> on a positive base.
\<close>

definition gross_unrounded :: "Position \<Rightarrow> RateSnapshot \<Rightarrow> real" where
  "gross_unrounded p rates = principal p * (1 + effectiveAnnualRate p rates) powr periodYears p"

text \<open>
  Modelled from the spec: steps 3 and 4 of the missing compounding calculation,
  \<^verbatim>\<open>gain = gross - principal\<close> and \<^verbatim>\<open>net = principal + gain * (1 - taxRate/100)\<close> when
  \<^verbatim>\<open>gain >= 0\<close>, \<^verbatim>\<open>net = gross\<close> when \<^verbatim>\<open>gain < 0\<close>.
\<close>

definition net_unrounded :: "Position \<Rightarrow> RateSnapshot \<Rightarrow> real" where
  "net_unrounded p rates =
     (let g = gross_unrounded p rates; gain = g - principal p
      in if gain \<ge> 0 then principal p + gain * (1 - taxRate p / 100) else g)"

text \<open>
  Modelled from the spec: step 5 of the missing compounding calculation, rounding to two
  decimal places at the output only. The specification names no rounding mode; halves
  are rounded up here, as \<^verbatim>\<open>Math.round\<close> does.
\<close>

definition round2 :: "real \<Rightarrow> real" where
  "round2 x = real_of_int (round (x * 100)) / 100"

text \<open>
  Modelled from the spec: the missing operation \<^verbatim>\<open>project\<close> with its failure semantics
  (sections 4.2 and 6): \<open>InvalidPeriod\<close> if the due date is not after the start date,
  \<open>InvalidPrincipal\<close> if the principal is not positive, a result otherwise. The
  operation returns one error; the two validations are made in the order in which the
  specification lists them.
\<close>

definition project :: "Position \<Rightarrow> RateSnapshot \<Rightarrow> ProjectionError + CalculationResult" where
  "project p rates =
     (if dueDay p \<le> startDay p then Inl InvalidPeriod
      else if principal p \<le> 0 then Inl InvalidPrincipal
      else Inr \<lparr> gross = round2 (gross_unrounded p rates),
                 net = round2 (net_unrounded p rates) \<rparr>)"

text \<open>Positions and rates for examples.\<close>

definition losing_position :: Position where
  "losing_position =
     \<lparr> principal = 1000, indexRegime = FixedNominal, rateParameter = - 10,
       taxRate = 15, startDay = 0, dueDay = 365, institution = ''Banco X'' \<rparr>"


definition sample_rates :: RateSnapshot where
  "sample_rates = \<lparr> referenceIndexAnnualRate = 12, inflationAnnualRate = 4 \<rparr>"

section \<open>Properties of the aggregation\<close>

lemma or_zero_id: "or_zero x = x"
  by (simp add: or_zero_def)

lemma totalFGC_foldl:
  "foldl (\<lambda>acc curr. acc + or_zero (futureValue curr)) a investments
     = a + sum_list (map futureValue investments)"
  by (induction investments arbitrary: a) (simp_all add: or_zero_id)

lemma totalFGC_sum: "totalFGC investments = sum_list (map futureValue investments)"
  by (simp add: totalFGC_def totalFGC_foldl)

lemma add_bank_distinct: "distinct (map fst bs) \<Longrightarrow> distinct (map fst (add_bank bs iv))"
  by (simp add: add_bank_def Let_def distinct_update)

lemma foldl_add_bank_distinct:
  "distinct (map fst bs) \<Longrightarrow> distinct (map fst (foldl add_bank bs ivs))"
  by (induction ivs arbitrary: bs) (simp_all add: add_bank_distinct)

lemma add_bank_map_of:
  "map_of (add_bank bs iv) k =
     (if k = normalized (bank iv)
      then Some (prop_or_zero (map_of bs k) + futureValue iv) else map_of bs k)"
  by (simp add: add_bank_def Let_def update_conv' or_zero_id)

lemma gross_at_absent:
  "k \<notin> (\<lambda>iv. normalized (bank iv)) ` set ivs \<Longrightarrow> gross_at k ivs = 0"
proof -
  assume "k \<notin> (\<lambda>iv. normalized (bank iv)) ` set ivs"
  then have "filter (\<lambda>iv. normalized (bank iv) = k) ivs = []"
    by (auto simp: filter_empty_conv)
  then show ?thesis by (simp add: gross_at_def)
qed

lemma gross_at_Cons:
  "gross_at k (iv # ivs) = (if normalized (bank iv) = k then futureValue iv else 0) + gross_at k ivs"
  by (simp add: gross_at_def)

lemma foldl_add_bank_map_of:
  "map_of (foldl add_bank bs ivs) k =
     (if k \<in> (\<lambda>iv. normalized (bank iv)) ` set ivs
      then Some (prop_or_zero (map_of bs k) + gross_at k ivs) else map_of bs k)"
proof (induction ivs arbitrary: bs)
  case Nil
  show ?case by simp
next
  case (Cons iv ivs)
  show ?case
    by (auto simp: Cons.IH add_bank_map_of gross_at_Cons gross_at_absent prop_or_zero_def or_zero_id)
qed

lemma fgc_banks_map_of:
  "map_of (fgc_banks ivs) k =
     (if k \<in> (\<lambda>iv. normalized (bank iv)) ` set ivs then Some (gross_at k ivs) else None)"
  by (simp add: fgc_banks_def foldl_add_bank_map_of prop_or_zero_def)

lemma fgc_banks_distinct: "distinct (map fst (fgc_banks ivs))"
  by (simp add: fgc_banks_def foldl_add_bank_distinct)

lemma Object_entries_mset: "mset (Object_entries obj) = mset obj"
  by (simp add: Object_entries_def)

lemma fgcExposure_mset: "mset (fgcExposure ivs) = mset (fgc_banks ivs)"
  by (simp add: fgcExposure_def Object_entries_mset)

lemma fgcExposure_set: "set (fgcExposure ivs) = set (fgc_banks ivs)"
  using fgcExposure_mset [of ivs] by (metis set_mset_mset)

lemma fgcExposure_distinct: "distinct (map fst (fgcExposure ivs))"
proof -
  have "mset (map fst (fgcExposure ivs)) = mset (map fst (fgc_banks ivs))"
    by (simp add: fgcExposure_mset)
  then show ?thesis
    using fgc_banks_distinct [of ivs] by (metis mset_eq_imp_distinct_iff)
qed

lemma fgcExposure_map_of: "map_of (fgcExposure ivs) = map_of (fgc_banks ivs)"
  by (simp add: map_of_inject_set fgcExposure_distinct fgc_banks_distinct fgcExposure_set)

lemma fgcExposure_sorted: "sorted_wrt (\<lambda>a b. snd a \<ge> snd b) (fgcExposure ivs)"
proof -
  have "sorted (map (\<lambda>e. - snd e) (fgcExposure ivs))"
    unfolding fgcExposure_def by (rule sorted_sort_key)
  then show ?thesis by (simp add: sorted_map)
qed

lemma fgcExposure_stable:
  "filter (\<lambda>e. snd e = t) (fgcExposure ivs) = filter (\<lambda>e. snd e = t) (Object_entries (fgc_banks ivs))"
proof -
  have "filter (\<lambda>e. - snd e = - t) (fgcExposure ivs) = filter (\<lambda>e. - snd e = - t) (Object_entries (fgc_banks ivs))"
    unfolding fgcExposure_def by (rule sort_key_stable)
  then show ?thesis by simp
qed


lemma update_sum:
  "sum_list (map snd (AList.update k (prop_or_zero (map_of al k) + x) al)) = sum_list (map snd al) + x"
  by (induction al) (auto simp: prop_or_zero_def or_zero_id)

lemma foldl_add_bank_sum:
  "sum_list (map snd (foldl add_bank bs ivs)) = sum_list (map snd bs) + sum_list (map futureValue ivs)"
  by (induction ivs arbitrary: bs) (simp_all add: add_bank_def Let_def update_sum or_zero_id)

lemma fgcExposure_sum: "sum_list (map snd (fgcExposure ivs)) = totalFGC ivs"
proof -
  have "sum_list (map snd (fgcExposure ivs)) = sum_mset (image_mset snd (mset (fgcExposure ivs)))"
    by (metis mset_map sum_mset_sum_list)
  also have "\<dots> = sum_list (map snd (fgc_banks ivs))"
    by (metis fgcExposure_mset mset_map sum_mset_sum_list)
  finally show ?thesis
    by (simp add: fgc_banks_def foldl_add_bank_sum totalFGC_sum)
qed

lemma fgcExposure_totals:
  "map snd (fgcExposure ivs) = map (\<lambda>k. gross_at k ivs) (map fst (fgcExposure ivs))"
proof -
  have "snd e = gross_at (fst e) ivs" if "e \<in> set (fgcExposure ivs)" for e
  proof -
    from that have "map_of (fgcExposure ivs) (fst e) = Some (snd e)"
      using fgcExposure_distinct [of ivs] by simp
    then show ?thesis
      by (simp add: fgcExposure_map_of fgc_banks_map_of split: if_splits)
  qed
  then show ?thesis by simp
qed

subsection \<open>Normalization of institution names\<close>

lemma char_eq_char_of_iff: "(c = char_of (n :: nat)) = (take_bit 8 n = (of_char c :: nat))"
  using char_of_eq_iff [of n c] by auto

lemmas aggregation_eval = char_eq_char_of_iff
  fgcExposure_def fgc_banks_def add_bank_def position_def normalized_def trim_def
  toUpperCase_def upper_char_def is_white_space_def Object_entries_def is_array_index_def
  is_digit_def digits_value_def prop_or_zero_def or_zero_def char_of_eq_iff Let_def















subsection \<open>Risk level, totals and order of the report\<close>

text \<open>
  Claim C1. The risk level of a global total is Over exactly when the total exceeds
  1,000,000, Warning exactly when it exceeds 0.8 times 1,000,000 without exceeding
  1,000,000, and Safe otherwise; the global total is the sum of the gross projected values.
  The totals 1,050,000, 850,000 and 350,000 are Over, Warning and Safe, and so is the
  collection of the specification's scenario (200,000 and 100,000 at one institution,
  50,000 at another).
\<close>

theorem risk_classification:
  "(riskLevel t = Over \<longleftrightarrow> t > 1000000)
   \<and> (riskLevel t = Warning \<longleftrightarrow> t > 0.8 * 1000000 \<and> \<not> t > 1000000)
   \<and> (riskLevel t = Safe \<longleftrightarrow> \<not> t > 0.8 * 1000000)
   \<and> riskLevel (totalFGC investments) = riskLevel (sum_list (map futureValue investments))
   \<and> riskLevel 1050000 = Over \<and> riskLevel 850000 = Warning \<and> riskLevel 350000 = Safe
   \<and> riskLevel (totalFGC [position ''Banco X'' 200000 170000,
         position ''banco x '' 100000 85000, position ''Other'' 50000 42500]) = Safe"
  by (simp add: riskLevel_def isGlobalOver_def isGlobalWarning_def FGC_GLOBAL_LIMIT_def
        totalFGC_sum position_def)

lemma add_bank_net: "add_bank bs (iv\<lparr>netFutureValue := n\<rparr>) = add_bank bs iv"
  by (simp add: add_bank_def)

lemma fgc_banks_net:
  "foldl add_bank bs (map (\<lambda>iv. iv\<lparr>netFutureValue := f iv\<rparr>) ivs) = foldl add_bank bs ivs"
  by (induction ivs arbitrary: bs) (simp_all add: add_bank_net)

text \<open>
  Claim C7. The global total is the sum of \<open>futureValue\<close> over all positions, whatever
  their institution; each total of the report is the sum of \<open>futureValue\<close> over the
  positions of its institution, and the totals of the report add up to the global total.
  Neither depends on \<open>netFutureValue\<close>: replacing the net values changes nothing.
\<close>

theorem totals_are_gross:
  "totalFGC investments = sum_list (map futureValue investments)
   \<and> map snd (fgcExposure investments)
       = map (\<lambda>k. gross_at k investments) (map fst (fgcExposure investments))
   \<and> sum_list (map snd (fgcExposure investments)) = totalFGC investments
   \<and> totalFGC (map (\<lambda>iv. iv\<lparr>netFutureValue := f iv\<rparr>) investments) = totalFGC investments
   \<and> fgcExposure (map (\<lambda>iv. iv\<lparr>netFutureValue := f iv\<rparr>) investments)
       = fgcExposure investments"
proof -
  have "totalFGC (map (\<lambda>iv. iv\<lparr>netFutureValue := f iv\<rparr>) investments) = totalFGC investments"
    by (simp add: totalFGC_sum comp_def)
  moreover have "fgcExposure (map (\<lambda>iv. iv\<lparr>netFutureValue := f iv\<rparr>) investments)
       = fgcExposure investments"
    by (simp add: fgcExposure_def fgc_banks_def fgc_banks_net)
  ultimately show ?thesis
    using totalFGC_sum fgcExposure_totals fgcExposure_sum by blast
qed

text \<open>
  The scenario of the specification: a global total of 350,000 and two institution totals.
\<close>

theorem totals_are_gross_witness:
  "totalFGC [position ''Banco X'' 200000 170000, position ''banco x '' 100000 85000,
             position ''Other'' 50000 42500] = 350000
   \<and> map snd (fgcExposure [position ''Banco X'' 200000 170000,
         position ''banco x '' 100000 85000, position ''Other'' 50000 42500])
      = [gross_at ''BANCO X'' [position ''Banco X'' 200000 170000,
           position ''banco x '' 100000 85000, position ''Other'' 50000 42500],
         gross_at ''OTHER'' [position ''Banco X'' 200000 170000,
           position ''banco x '' 100000 85000, position ''Other'' 50000 42500]]"
proof -
  let ?ivs = "[position ''Banco X'' 200000 170000, position ''banco x '' 100000 85000,
             position ''Other'' 50000 42500]"
  have e: "fgcExposure ?ivs = [(''BANCO X'', 300000), (''OTHER'', 50000)]"
    by (simp add: aggregation_eval)
  from totals_are_gross [of ?ivs]
  have a: "totalFGC ?ivs = sum_list (map futureValue ?ivs)"
    and b: "map snd (fgcExposure ?ivs) = map (\<lambda>k. gross_at k ?ivs) (map fst (fgcExposure ?ivs))"
    by blast+
  have a': "totalFGC ?ivs = 350000"
    unfolding a by (simp add: position_def)
  have b': "map snd (fgcExposure ?ivs) = [gross_at ''BANCO X'' ?ivs, gross_at ''OTHER'' ?ivs]"
    using b unfolding e by simp
  from a' b' show ?thesis by blast
qed

text \<open>
  Claim C8. The aggregation has no error branch: \<open>fgcExposure\<close>, \<open>totalFGC\<close> and
  \<open>riskLevel\<close> are total functions of the position collection, built from a fold, a
  stable sort and two comparisons. On the empty collection the institution list is empty,
  the global total is 0 and the risk level is Safe.
\<close>

theorem empty_collection:
  "fgcExposure [] = [] \<and> totalFGC [] = 0 \<and> riskLevel (totalFGC []) = Safe"
  by (simp add: fgcExposure_def fgc_banks_def Object_entries_def totalFGC_def riskLevel_def
        isGlobalOver_def isGlobalWarning_def FGC_GLOBAL_LIMIT_def)

lemma add_bank_keys:
  "map fst (add_bank bs iv) =
     (if normalized (bank iv) \<in> set (map fst bs) then map fst bs
      else map fst bs @ [normalized (bank iv)])"
  by (simp add: add_bank_def Let_def AList.update_keys)

lemma foldl_add_bank_keys:
  "map fst (foldl add_bank [] ivs) = rev (remdups (rev (map (\<lambda>iv. normalized (bank iv)) ivs)))"
proof (induction ivs rule: rev_induct)
  case Nil
  show ?case by simp
next
  case (snoc iv ivs)
  have "map fst (foldl add_bank [] (ivs @ [iv])) = map fst (add_bank (foldl add_bank [] ivs) iv)"
    by simp
  also have "\<dots> = rev (remdups (rev (map (\<lambda>iv. normalized (bank iv)) (ivs @ [iv]))))"
    unfolding add_bank_keys snoc.IH by simp
  finally show ?case .
qed

text \<open>
  Claim C6, as amended. The pairs of the report are ordered descending by total. The
  comparator looks at the totals only, so institutions with equal totals are not ordered
  by name: they stay in the order in which \<^verbatim>\<open>Object.entries\<close> lists the buckets, and
  the buckets were created in the order in which the normalized names first appear in the
  collection. The order is a function of the collection.
\<close>

theorem exposure_order:
  "sorted_wrt (\<lambda>a b. snd a \<ge> snd b) (fgcExposure investments)
   \<and> filter (\<lambda>e. snd e = t) (fgcExposure investments)
       = filter (\<lambda>e. snd e = t) (Object_entries (fgc_banks investments))
   \<and> map fst (fgc_banks investments)
       = rev (remdups (rev (map (\<lambda>iv. normalized (bank iv)) investments)))"
  using fgcExposure_sorted fgcExposure_stable foldl_add_bank_keys
  by (simp add: fgc_banks_def)

text \<open>
  Claim C6 as stated fails: two institutions \<^verbatim>\<open>B\<close> and \<^verbatim>\<open>A\<close> with the same total,
  entered in this order, are reported in this order, not by ascending name.
\<close>

theorem exposure_order_counterexample:
  "fgcExposure [position ''B'' 100 85, position ''A'' 100 85] = [(''B'', 100), (''A'', 100)]
   \<and> \<not> ordered_by_total_then_name (fgcExposure [position ''B'' 100 85, position ''A'' 100 85])"
proof -
  have e: "fgcExposure [position ''B'' 100 85, position ''A'' 100 85] = [(''B'', 100), (''A'', 100)]"
    by (simp add: aggregation_eval)
  show ?thesis
    unfolding e by (simp add: ordered_by_total_then_name_def)
qed

text \<open>
  A collection with a tie of three institutions, one of them named by an array index.
\<close>

theorem exposure_order_witness:
  "fgcExposure [position ''B'' 100 85, position ''C'' 500 400, position ''A'' 100 85, position ''7'' 100 85]
     = [(''C'', 500), (''7'', 100), (''B'', 100), (''A'', 100)]
   \<and> sorted_wrt (\<lambda>a b. snd a \<ge> snd b) [(''C'', 500::real), (''7'', 100), (''B'', 100), (''A'', 100)]
   \<and> Object_entries (fgc_banks [position ''B'' 100 85, position ''C'' 500 400, position ''A'' 100 85, position ''7'' 100 85]) = [(''7'', 100), (''B'', 100), (''C'', 500), (''A'', 100)]"
proof -
  let ?ivs = "[position ''B'' 100 85, position ''C'' 500 400, position ''A'' 100 85, position ''7'' 100 85]"
  have e: "fgcExposure ?ivs = [(''C'', 500), (''7'', 100), (''B'', 100), (''A'', 100)]"
    by (simp add: aggregation_eval)
  have o: "Object_entries (fgc_banks ?ivs) = [(''7'', 100), (''B'', 100), (''C'', 500), (''A'', 100)]"
    by (simp add: aggregation_eval)
  from exposure_order [of ?ivs 100]
  have "sorted_wrt (\<lambda>a b. snd a \<ge> snd b) (fgcExposure ?ivs)" by blast
  then show ?thesis by (simp add: e o)
qed

section \<open>Properties of the bulk recompute and of the rate snapshot\<close>

lemma recomputed_iff:
  "recomputed calc newRates iv u \<longleftrightarrow>
     (\<exists>res. calc iv newRates = Inr res
        \<and> u = iv\<lparr>futureValue := gross res, netFutureValue := net res\<rparr>)"
  by (simp add: recomputed_def split: sum.splits)

lemma updatedInvestments_Inr_iff:
  "updatedInvestments calc newRates investments = Inr updated
     \<longleftrightarrow> list_all2 (recomputed calc newRates) investments updated"
proof (induction investments arbitrary: updated)
  case Nil
  show ?case by auto
next
  case (Cons iv rest)
  have step: "list_all2 (recomputed calc newRates) (iv # rest) updated \<longleftrightarrow>
      (\<exists>res us. calc iv newRates = Inr res
         \<and> updatedInvestments calc newRates rest = Inr us
         \<and> updated = iv\<lparr>futureValue := gross res, netFutureValue := net res\<rparr> # us)"
    unfolding list_all2_Cons1 recomputed_iff Cons.IH [symmetric] by blast
  show ?case
    unfolding step by (auto split: sum.splits)
qed

lemma recomputed_frame:
  "recomputed calc newRates iv u \<Longrightarrow>
     id_inv u = id_inv iv \<and> broker u = broker iv \<and> bank u = bank iv \<and> title u = title iv
     \<and> type_inv u = type_inv iv \<and> amount u = amount iv \<and> quantity u = quantity iv
     \<and> interestRate u = interestRate iv \<and> incomeTax u = incomeTax iv
     \<and> startDate u = startDate iv \<and> dueDate u = dueDate iv \<and> createdAt u = createdAt iv"
  by (auto simp: recomputed_def split: sum.splits)

lemma list_all2_map_eq:
  "list_all2 R xs ys \<Longrightarrow> (\<And>x y. R x y \<Longrightarrow> f y = f x) \<Longrightarrow> map f ys = map f xs"
  by (induction rule: list_all2_induct) simp_all

text \<open>
  Claim C9. The bulk recompute returns a collection exactly when it is, position by
  position and in the same order, the stored collection with \<open>futureValue\<close> and
  \<open>netFutureValue\<close> replaced by the freshly computed gross and net values. Then the
  length and every other field of every position are unchanged. It fails exactly when the
  calculation fails for one of the positions.
\<close>

theorem recompute_frame:
  "(updatedInvestments calc newRates investments = Inr updated
      \<longleftrightarrow> list_all2 (recomputed calc newRates) investments updated)
   \<and> (updatedInvestments calc newRates investments = Inr updated \<longrightarrow>
        length updated = length investments
        \<and> map id_inv updated = map id_inv investments
        \<and> map broker updated = map broker investments
        \<and> map bank updated = map bank investments
        \<and> map title updated = map title investments
        \<and> map type_inv updated = map type_inv investments
        \<and> map amount updated = map amount investments
        \<and> map quantity updated = map quantity investments
        \<and> map interestRate updated = map interestRate investments
        \<and> map incomeTax updated = map incomeTax investments
        \<and> map startDate updated = map startDate investments
        \<and> map dueDate updated = map dueDate investments
        \<and> map createdAt updated = map createdAt investments)
   \<and> ((\<exists>e. updatedInvestments calc newRates investments = Inl e)
        \<longleftrightarrow> (\<exists>iv \<in> set investments. \<exists>e. calc iv newRates = Inl e))"
proof -
  have iff: "updatedInvestments calc newRates investments = Inr updated
      \<longleftrightarrow> list_all2 (recomputed calc newRates) investments updated"
    by (rule updatedInvestments_Inr_iff)
  have frame: "map f updated = map f investments"
    if "list_all2 (recomputed calc newRates) investments updated"
      and "\<And>iv u. recomputed calc newRates iv u \<Longrightarrow> f u = f iv" for f :: "Investment \<Rightarrow> 'x"
    using that by (rule list_all2_map_eq)
  have fail: "(\<exists>e. updatedInvestments calc newRates investments = Inl e)
        \<longleftrightarrow> (\<exists>iv \<in> set investments. \<exists>e. calc iv newRates = Inl e)"
    by (induction investments) (auto split: sum.splits)
  show ?thesis
    unfolding iff
    using fail
    by (auto dest: list_all2_lengthD intro!: frame dest: recomputed_frame)
qed

text \<open>
  Two positions recomputed with a calculation that always succeeds.
\<close>

theorem recompute_frame_witness:
  "updatedInvestments sample_calc \<lparr> cdi = 12, ipca = 4 \<rparr>
     [position ''Banco X'' 1 1, position ''Other'' 2 2]
   = Inr [(position ''Banco X'' 1 1)\<lparr>futureValue := 1100, netFutureValue := 1050\<rparr>,
          (position ''Other'' 2 2)\<lparr>futureValue := 1100, netFutureValue := 1050\<rparr>]
   \<and> map bank [(position ''Banco X'' 1 1)\<lparr>futureValue := 1100, netFutureValue := 1050\<rparr>,
          (position ''Other'' 2 2)\<lparr>futureValue := 1100, netFutureValue := 1050\<rparr>]
      = map bank [position ''Banco X'' 1 1, position ''Other'' 2 2]"
proof -
  let ?ivs = "[position ''Banco X'' 1 1, position ''Other'' 2 2]"
  let ?out = "[(position ''Banco X'' 1 1)\<lparr>futureValue := 1100, netFutureValue := 1050\<rparr>,
          (position ''Other'' 2 2)\<lparr>futureValue := 1100, netFutureValue := 1050\<rparr>]"
  let ?r = "\<lparr> cdi = 12, ipca = 4 \<rparr>"
  have r: "updatedInvestments sample_calc ?r ?ivs = Inr ?out"
    by (simp add: sample_calc_def position_def)
  from recompute_frame [of sample_calc ?r ?ivs ?out] r
  have "map bank ?out = map bank ?ivs" by blast
  with r show ?thesis by blast
qed

text \<open>
  Claim C10. When the store answers with an error, or without a row, the result is the
  default snapshot \<open>cdi = 11.25\<close>, \<open>ipca = 4.5\<close>; otherwise it is the row's \<open>cdi\<close> and
  \<open>ipca\<close>, each coerced to a number. In both cases a snapshot is returned.
\<close>

theorem fetchMarketRates_result:
  "(error response \<noteq> None \<or> data response = None \<longrightarrow>
      fetchMarketRates Number response = \<lparr> cdi = 11.25, ipca = 4.5 \<rparr>)
   \<and> (error response = None \<and> data response = Some row \<longrightarrow>
      fetchMarketRates Number response
        = \<lparr> cdi = Number (row_cdi row), ipca = Number (row_ipca row) \<rparr>)"
  by (auto simp: fetchMarketRates_def default_rates_def split: option.splits)

text \<open>
  An error, an empty answer, and a row whose \<open>ipca\<close> is null (which \<^verbatim>\<open>Number\<close> reads
  as 0).
\<close>

theorem fetchMarketRates_result_witness:
  "fetchMarketRates (\<lambda>v. case v of None \<Rightarrow> 0 | Some x \<Rightarrow> x)
      \<lparr> data = None, error = Some ''PGRST116'' \<rparr> = \<lparr> cdi = 11.25, ipca = 4.5 \<rparr>
   \<and> fetchMarketRates (\<lambda>v. case v of None \<Rightarrow> 0 | Some x \<Rightarrow> x)
      \<lparr> data = None, error = (None :: string option) \<rparr> = \<lparr> cdi = 11.25, ipca = 4.5 \<rparr>
   \<and> fetchMarketRates (\<lambda>v. case v of None \<Rightarrow> 0 | Some x \<Rightarrow> x)
      \<lparr> data = Some \<lparr> row_cdi = Some 13.75, row_ipca = None \<rparr>, error = (None :: string option) \<rparr>
     = \<lparr> cdi = 13.75, ipca = 0 \<rparr>"
proof -
  let ?N = "\<lambda>v :: real option. case v of None \<Rightarrow> 0 | Some x \<Rightarrow> x"
  have "fetchMarketRates ?N \<lparr> data = None, error = Some ''PGRST116'' \<rparr> = \<lparr> cdi = 11.25, ipca = 4.5 \<rparr>"
    using fetchMarketRates_result [of "\<lparr> data = None, error = Some ''PGRST116'' \<rparr>" ?N]
    by simp
  moreover have "fetchMarketRates ?N \<lparr> data = None, error = (None :: string option) \<rparr>
      = \<lparr> cdi = 11.25, ipca = 4.5 \<rparr>"
    using fetchMarketRates_result [of "\<lparr> data = None, error = (None :: string option) \<rparr>" ?N]
    by simp
  moreover have "fetchMarketRates ?N
      \<lparr> data = Some \<lparr> row_cdi = Some 13.75, row_ipca = None \<rparr>, error = (None :: string option) \<rparr>
     = \<lparr> cdi = 13.75, ipca = 0 \<rparr>"
    using fetchMarketRates_result [of
        "\<lparr> data = Some \<lparr> row_cdi = Some 13.75, row_ipca = None \<rparr>, error = (None :: string option) \<rparr>"
        ?N "\<lparr> row_cdi = Some 13.75, row_ipca = None \<rparr>"]
    by simp
  ultimately show ?thesis by blast
qed

section \<open>Properties of the projection\<close>

lemmas projection_eval =
  project_def gross_unrounded_def net_unrounded_def effectiveAnnualRate_def periodYears_def
  round2_def Let_def

text \<open>
  Claim C2. A principal of 10000 at 100 percent of a reference index of 12 percent, taxed
  at 15 percent and held for exactly 365 calendar days, has the effective annual rate
  0.12 and is projected to a gross value of 11200.00 and a net value of 11020.00, whatever
  the start day, the institution and the inflation rate.
\<close>

theorem scenario_projection:
  "effectiveAnnualRate
      \<lparr> principal = 10000, indexRegime = PostFixedToReferenceIndex, rateParameter = 100,
        taxRate = 15, startDay = s, dueDay = s + 365, institution = b \<rparr>
      \<lparr> referenceIndexAnnualRate = 12, inflationAnnualRate = i \<rparr> = 0.12
   \<and> project
      \<lparr> principal = 10000, indexRegime = PostFixedToReferenceIndex, rateParameter = 100,
        taxRate = 15, startDay = s, dueDay = s + 365, institution = b \<rparr>
      \<lparr> referenceIndexAnnualRate = 12, inflationAnnualRate = i \<rparr>
     = Inr \<lparr> gross = 11200, net = 11020 \<rparr>"
  by (simp add: projection_eval)

text \<open>
  Claim C3. For a valid position (positive principal, due date after start date) whose
  gain, the gross value before rounding minus the principal, is negative, the projection
  returns a result whose net value is exactly its gross value: no tax is applied to the
  loss, and net does not exceed gross.
\<close>

theorem loss_is_not_taxed:
  assumes "startDay p < dueDay p" and "0 < principal p"
    and "gross_unrounded p rates - principal p < 0"
  shows "\<exists>res. project p rates = Inr res \<and> net res = gross res \<and> net res \<le> gross res
           \<and> gross res = round2 (gross_unrounded p rates)"
  using assms by (simp add: project_def net_unrounded_def Let_def)

text \<open>
  A loss: 1000 at a fixed rate of minus 10 percent for one year is worth 900, gross and net.
\<close>

theorem loss_is_not_taxed_witness:
  "startDay losing_position < dueDay losing_position \<and> 0 < principal losing_position
   \<and> gross_unrounded losing_position sample_rates = 900
   \<and> project losing_position sample_rates = Inr \<lparr> gross = 900, net = 900 \<rparr>"
proof -
  have g: "gross_unrounded losing_position sample_rates = 900"
    by (simp add: losing_position_def sample_rates_def projection_eval)
  have h: "startDay losing_position < dueDay losing_position" "0 < principal losing_position"
    by (simp_all add: losing_position_def)
  have l: "gross_unrounded losing_position sample_rates - principal losing_position < 0"
    unfolding g by (simp add: losing_position_def)
  from loss_is_not_taxed [OF h l] obtain res where
    "project losing_position sample_rates = Inr res" "net res = gross res"
    "gross res = round2 (gross_unrounded losing_position sample_rates)"
    by blast
  then have "project losing_position sample_rates = Inr \<lparr> gross = 900, net = 900 \<rparr>"
    unfolding g by (simp add: round2_def)
  with g h show ?thesis by blast
qed




end
